theory Spec2Isabelle
  imports Complex_Main
begin

section \<open>Core clinical logic of the triage application\<close>

text \<open>
  The development follows \<^verbatim>\<open>streamlit_app.py\<close>. Readings are Python integers (the
  number inputs and the pain slider of the application deliver integers), modelled
  as \<^typ>\<open>int\<close>. A Python \<^verbatim>\<open>float\<close> is carried as a \<^typ>\<open>real\<close>; the only float
  operations of the source are the least-squares fit of numpy and the builtin
  \<^verbatim>\<open>round\<close>, which belong to libraries outside the repository and are taken as
  parameters (\<open>polyfit\<close>, the slope component of \<^verbatim>\<open>np.polyfit(x, y, 1)\<close> over
  \<^verbatim>\<open>x = arange(len(values))\<close>, and \<open>round2\<close>, \<^verbatim>\<open>round(_, 2)\<close>).
\<close>

subsection \<open>Static tables\<close>

definition METRICS :: "string list" where
  "METRICS = [''heart_rate'', ''spo2'', ''pain_score'']"

definition SAFE_RANGES :: "(string \<times> int \<times> int) list" where
  "SAFE_RANGES =
     [(''heart_rate'', (60, 100)),
      (''spo2'', (95, 100)),
      (''pain_score'', (0, 3))]"

definition RED_FLAG_THRESHOLDS :: "(string \<times> int \<times> int) list" where
  "RED_FLAG_THRESHOLDS =
     [(''heart_rate'', (40, 130)),
      (''spo2'', (0, 90)),
      (''pain_score'', (8, 10))]"

definition SPECIALIST_MAP :: "(string \<times> string) list" where
  "SPECIALIST_MAP =
     [(''Wound/Skin'', ''Dermatologist or General Surgeon''),
      (''Chest Pain'', ''Cardiologist''),
      (''Breathing Issue'', ''Pulmonologist''),
      (''Fever/Infection'', ''General Physician''),
      (''Nerve/Numbness'', ''Neurologist'')]"

subsection \<open>Errors\<close>

text \<open>Subscripting a dictionary with a key it does not hold raises \<^verbatim>\<open>KeyError\<close>.\<close>

datatype error = KeyError string

subsection \<open>Trend analyser\<close>

definition calculate_slope :: "(int list \<Rightarrow> real) \<Rightarrow> int list \<Rightarrow> real" where
  "calculate_slope polyfit values =
     (if length values < 2 then 0 else polyfit values)"

subsection \<open>Display names: \<^verbatim>\<open>metric.replace('_', ' ').title()\<close>\<close>

definition is_lower :: "char \<Rightarrow> bool" where
  "is_lower c = (97 \<le> (of_char c :: nat) \<and> (of_char c :: nat) \<le> 122)"

definition is_upper :: "char \<Rightarrow> bool" where
  "is_upper c = (65 \<le> (of_char c :: nat) \<and> (of_char c :: nat) \<le> 90)"

definition to_upper :: "char \<Rightarrow> char" where
  "to_upper c = (if is_lower c then char_of ((of_char c :: nat) - 32) else c)"

definition to_lower :: "char \<Rightarrow> char" where
  "to_lower c = (if is_upper c then char_of ((of_char c :: nat) + 32) else c)"

definition replace_char :: "char \<Rightarrow> char \<Rightarrow> string \<Rightarrow> string" where
  "replace_char old new s = map (\<lambda>c. if c = old then new else c) s"

text \<open>
  \<^verbatim>\<open>str.title\<close> on ASCII text: a cased character is upper-cased when the character
  before it is not cased, and lower-cased otherwise; the flag is whether the previous
  character was cased.
\<close>

fun title_from :: "bool \<Rightarrow> string \<Rightarrow> string" where
  "title_from previous_is_cased [] = []"
| "title_from previous_is_cased (c # cs) =
     (if is_lower c then
        (if previous_is_cased then c else to_upper c) # title_from True cs
      else if is_upper c then
        (if previous_is_cased then to_lower c else c) # title_from True cs
      else c # title_from False cs)"

definition title :: "string \<Rightarrow> string" where
  "title s = title_from False s"

definition display_name :: "string \<Rightarrow> string" where
  "display_name metric = title (replace_char (CHR ''_'') (CHR '' '') metric)"

subsection \<open>Triage classifier\<close>

text \<open>
  The worsening rule of the loop body (the \<^verbatim>\<open>if\<close>/\<^verbatim>\<open>elif\<close> chain on the metric
  name and \<open>delta\<close>).
\<close>

definition is_worsening :: "string \<Rightarrow> int \<Rightarrow> bool" where
  "is_worsening metric delta =
     (if metric = ''spo2'' \<and> delta < - 2 then True
      else if metric = ''pain_score'' \<and> delta > 2 then True
      else if metric = ''heart_rate'' \<and> delta > 5 then True
      else False)"

text \<open>
  The red-flag test: \<^verbatim>\<open>current < RED_FLAG_THRESHOLDS[metric][0] or
  current > RED_FLAG_THRESHOLDS[metric][1]\<close>. The table is subscripted with the
  metric, which raises for a name the table does not hold.
\<close>

definition red_flag_of :: "string \<Rightarrow> int \<Rightarrow> error + bool" where
  "red_flag_of metric current =
     (case map_of RED_FLAG_THRESHOLDS metric of
        None \<Rightarrow> Inl (KeyError metric)
      | Some (lo, hi) \<Rightarrow> Inr (current < lo \<or> current > hi))"

text \<open>
  One row of the metrics table. The label of a critical alert is the text
  \<^verbatim>\<open>YES\<close>, a blank and the radioactive sign (U+2622, U+FE0F), written here in UTF-8.
\<close>

record metric_row =
  Metric :: string
  Trend :: string
  Critical_Alert :: string
  Slope :: real

definition YES_label :: string where
  "YES_label = ''YES '' @ [CHR 0xE2, CHR 0x98, CHR 0xA2, CHR 0xEF, CHR 0xB8, CHR 0x8F]"

text \<open>
  The accumulators of the loop, in the order
  \<open>(metric_results, worsening_count, red_flag_count, reasons)\<close>.
\<close>

type_synonym accumulators = "metric_row list \<times> int \<times> int \<times> string list"

text \<open>The loop body for a metric whose series \<open>data\<close> is not empty.\<close>

definition assess_metric ::
  "(int list \<Rightarrow> real) \<Rightarrow> (real \<Rightarrow> real) \<Rightarrow> string \<Rightarrow> int list \<Rightarrow> accumulators \<Rightarrow>
     error + accumulators" where
  "assess_metric polyfit round2 metric data acc =
     (case acc of (metric_results, worsening_count, red_flag_count, reasons) \<Rightarrow>
        let current = last data;
            baseline = hd data;
            delta = current - baseline;
            slope = calculate_slope polyfit data;
            worsening = is_worsening metric delta
        in case red_flag_of metric current of
             Inl e \<Rightarrow> Inl e
           | Inr red_flag \<Rightarrow>
               let worsening_count1 = (if worsening then worsening_count + 1 else worsening_count);
                   reasons1 =
                     (if worsening
                      then reasons @ [display_name metric @ '' is worsening over time.'']
                      else reasons);
                   red_flag_count1 = (if red_flag then red_flag_count + 1 else red_flag_count);
                   reasons2 =
                     (if red_flag
                      then reasons1 @
                        [''CRITICAL: '' @ display_name metric @ '' crossed safety limits.'']
                      else reasons1);
                   row = \<lparr> Metric = display_name metric,
                           Trend = (if worsening then ''Worsening'' else ''Stable''),
                           Critical_Alert = (if red_flag then YES_label else ''No''),
                           Slope = round2 slope \<rparr>
               in Inr (metric_results @ [row], worsening_count1, red_flag_count1, reasons2))"

text \<open>
  The \<^verbatim>\<open>for metric in METRICS\<close> loop over the metrics still to visit:
  \<^verbatim>\<open>vitals_history[metric]\<close> raises for an absent key, an empty series is skipped
  (\<^verbatim>\<open>continue\<close>).
\<close>

fun monitor_loop ::
  "(int list \<Rightarrow> real) \<Rightarrow> (real \<Rightarrow> real) \<Rightarrow> (string \<rightharpoonup> int list) \<Rightarrow> string list \<Rightarrow>
     accumulators \<Rightarrow> error + accumulators" where
  "monitor_loop polyfit round2 vitals_history [] acc = Inr acc"
| "monitor_loop polyfit round2 vitals_history (metric # rest) acc =
     (case vitals_history metric of
        None \<Rightarrow> Inl (KeyError metric)
      | Some data \<Rightarrow>
          if data = [] then monitor_loop polyfit round2 vitals_history rest acc
          else (case assess_metric polyfit round2 metric data acc of
                  Inl e \<Rightarrow> Inl e
                | Inr acc' \<Rightarrow> monitor_loop polyfit round2 vitals_history rest acc'))"

record triage_result =
  metrics :: "metric_row list"
  overall_status :: string
  worsening_count :: int
  red_flag_count :: int
  reasons :: "string list"

text \<open>
  The aggregation and the returned dictionary. The four accumulators are bound as
  \<open>(results, n_worsening, n_red_flag, why)\<close>, since the names of the source are those
  of the fields of the result.
\<close>

definition summarize :: "accumulators \<Rightarrow> triage_result" where
  "summarize acc =
     (case acc of (results, n_worsening, n_red_flag, why) \<Rightarrow>
        \<lparr> metrics = results,
          overall_status =
            (if n_red_flag \<ge> 1 \<or> n_worsening \<ge> 1 then ''RED_FLAG'' else ''MONITOR''),
          worsening_count = n_worsening,
          red_flag_count = n_red_flag,
          reasons = why \<rparr>)"

definition patient_monitoring_pipeline_integrated ::
  "(int list \<Rightarrow> real) \<Rightarrow> (real \<Rightarrow> real) \<Rightarrow> (string \<rightharpoonup> int list) \<Rightarrow> error + triage_result" where
  "patient_monitoring_pipeline_integrated polyfit round2 vitals_history =
     (case monitor_loop polyfit round2 vitals_history METRICS ([], 0, 0, []) of
        Inl e \<Rightarrow> Inl e
      | Inr acc \<Rightarrow> Inr (summarize acc))"

section \<open>Session state and the triage workflow\<close>

text \<open>
  \<^verbatim>\<open>st.session_state\<close>: the page, the step of the patient workflow and the encounter
  data. An uploaded file is referred to by its name.
\<close>

record patient =
  name :: string
  age :: string

record safety_answers =
  airway :: string
  bleed :: string

record encounter =
  patient_info :: patient
  rf :: safety_answers
  vitals_history :: "string \<rightharpoonup> int list"
  esi_worsening :: string
  photo :: "string option"
  main_symptom :: string

record session_state =
  current_page :: string
  step :: int
  data :: encounter

text \<open>The values the script stores when the session has none yet.\<close>

definition initial_data :: encounter where
  "initial_data =
     \<lparr> patient_info = \<lparr> name = ''Anonymous'', age = ''N/A'' \<rparr>,
       rf = \<lparr> airway = ''No'', bleed = ''No'' \<rparr>,
       vitals_history = [''heart_rate'' \<mapsto> [], ''spo2'' \<mapsto> [], ''pain_score'' \<mapsto> []],
       esi_worsening = ''No'',
       photo = None,
       main_symptom = ''Wound/Skin'' \<rparr>"

definition initial_session :: session_state where
  "initial_session = \<lparr> current_page = ''Home'', step = 0, data = initial_data \<rparr>"

text \<open>\<^verbatim>\<open>history[key].append(v)\<close>: the subscript raises for an absent key.\<close>

definition append_reading ::
  "string \<Rightarrow> int \<Rightarrow> (string \<rightharpoonup> int list) \<Rightarrow> error + (string \<rightharpoonup> int list)" where
  "append_reading key v history =
     (case history key of
        None \<Rightarrow> Inl (KeyError key)
      | Some series \<Rightarrow> Inr (history(key \<mapsto> series @ [v])))"

text \<open>
  The buttons of the application, with the values of the widgets read when the button
  is pressed; \<open>Upload\<close> is a run of the photo step with a file in the uploader.
\<close>

datatype event =
    StartTriage
  | Simulate
  | BeginAssessment string string
  | Continue string string
  | Next int int int
  | AnalyzeFlow string string
  | Upload string
  | Complete
  | Finish
  | BackToHome

text \<open>
  One run of the script with the given button pressed. A button exists only on its
  page and step; elsewhere nothing is pressed and the state stays as it is.
\<close>

definition handle :: "event \<Rightarrow> session_state \<Rightarrow> error + session_state" where
  "handle ev s =
     (if current_page s = ''Home'' then
        (case ev of
           StartTriage \<Rightarrow> Inr (s\<lparr> step := 0, current_page := ''Patient Triage'' \<rparr>)
         | Simulate \<Rightarrow>
             Inr (s\<lparr> data := (data s)
                      \<lparr> patient_info := \<lparr> name = ''Simulated Patient'', age = ''45'' \<rparr>,
                        vitals_history :=
                          [''heart_rate'' \<mapsto> [75, 82, 95, 110, 125, 135],
                           ''spo2'' \<mapsto> [98, 97, 95, 92, 89, 87],
                           ''pain_score'' \<mapsto> [2, 3, 5, 7, 8, 9]],
                        main_symptom := ''Breathing Issue'' \<rparr>,
                    current_page := ''Clinician Portal'' \<rparr>)
         | _ \<Rightarrow> Inr s)
      else if current_page s = ''Patient Triage'' then
        (if step s = 0 then
           (case ev of
              BeginAssessment n a \<Rightarrow>
                Inr (s\<lparr> data := (data s)\<lparr> patient_info := \<lparr> name = n, age = a \<rparr> \<rparr>,
                       step := 1 \<rparr>)
            | _ \<Rightarrow> Inr s)
         else if step s = 1 then
           (case ev of
              Continue q1 q2 \<Rightarrow>
                Inr (s\<lparr> data := (data s)\<lparr> rf := \<lparr> airway = q1, bleed = q2 \<rparr> \<rparr>,
                       step := 2 \<rparr>)
            | _ \<Rightarrow> Inr s)
         else if step s = 2 then
           (case ev of
              Next hr spo2 pain \<Rightarrow>
                (case append_reading ''heart_rate'' hr (vitals_history (data s)) of
                   Inl e \<Rightarrow> Inl e
                 | Inr h1 \<Rightarrow>
                     (case append_reading ''spo2'' spo2 h1 of
                        Inl e \<Rightarrow> Inl e
                      | Inr h2 \<Rightarrow>
                          (case append_reading ''pain_score'' pain h2 of
                             Inl e \<Rightarrow> Inl e
                           | Inr h3 \<Rightarrow>
                               Inr (s\<lparr> data := (data s)\<lparr> vitals_history := h3 \<rparr>,
                                      step := 3 \<rparr>))))
            | _ \<Rightarrow> Inr s)
         else if step s = 3 then
           (case ev of
              AnalyzeFlow symptom c1 \<Rightarrow>
                Inr (s\<lparr> data := (data s)\<lparr> main_symptom := symptom, esi_worsening := c1 \<rparr>,
                       step := (if symptom \<in> set [''Wound/Skin'', ''Fever/Infection'']
                                then 4 else 5) \<rparr>)
            | _ \<Rightarrow> Inr s)
         else if step s = 4 then
           (case ev of
              Upload up_file \<Rightarrow> Inr (s\<lparr> data := (data s)\<lparr> photo := Some up_file \<rparr> \<rparr>)
            | Complete \<Rightarrow> Inr (s\<lparr> step := 5 \<rparr>)
            | _ \<Rightarrow> Inr s)
         else if step s = 5 then
           (case ev of
              Finish \<Rightarrow> Inr (s\<lparr> step := 0, current_page := ''Home'' \<rparr>)
            | _ \<Rightarrow> Inr s)
         else Inr s)
      else if current_page s = ''Clinician Portal'' then
        (case ev of
           BackToHome \<Rightarrow> Inr (s\<lparr> step := 0, current_page := ''Home'' \<rparr>)
         | _ \<Rightarrow> Inr s)
      else Inr s)"

text \<open>A sequence of button presses; an error stops the run.\<close>

fun run :: "event list \<Rightarrow> session_state \<Rightarrow> error + session_state" where
  "run [] s = Inr s"
| "run (ev # evs) s = (case handle ev s of Inl e \<Rightarrow> Inl e | Inr s' \<Rightarrow> run evs s')"

section \<open>Notions used in the statements\<close>

text \<open>The series stored for a metric; an absent key reads as no readings.\<close>

definition series_of :: "(string \<rightharpoonup> int list) \<Rightarrow> string \<Rightarrow> int list" where
  "series_of vh m = (case vh m of None \<Rightarrow> [] | Some d \<Rightarrow> d)"

text \<open>
  What the loop counts for a metric with series \<open>d\<close>: an empty series counts for
  nothing, otherwise the worsening rule on last minus first, and the red-flag test on
  the last reading.
\<close>

definition counts_worsening :: "string \<Rightarrow> int list \<Rightarrow> bool" where
  "counts_worsening m d = (d \<noteq> [] \<and> is_worsening m (last d - hd d))"

definition counts_red_flag :: "string \<Rightarrow> int list \<Rightarrow> bool" where
  "counts_red_flag m d = (d \<noteq> [] \<and> red_flag_of m (last d) = Inr True)"

text \<open>
  The worsening rule in the words of the specification: oxygen saturation dropping by
  more than 2, pain rising by more than 2, heart rate rising by more than 5, and no rule
  for any other metric.
\<close>

definition spec_worsening_rule :: "string \<Rightarrow> int \<Rightarrow> bool" where
  "spec_worsening_rule metric delta =
     ((metric = ''spo2'' \<and> delta < - 2) \<or>
      (metric = ''pain_score'' \<and> delta > 2) \<or>
      (metric = ''heart_rate'' \<and> delta > 5))"

text \<open>The two counts of a classification, or its error.\<close>

definition counts_of :: "error + triage_result \<Rightarrow> error + int \<times> int" where
  "counts_of res = map_sum id (\<lambda>r. (worsening_count r, red_flag_count r)) res"

text \<open>A view of all fields of a session, the history read at the three metrics.\<close>

definition snapshot ::
  "session_state \<Rightarrow>
     string \<times> int \<times> patient \<times> safety_answers \<times> int list option list \<times> string \<times>
     string option \<times> string" where
  "snapshot s =
     (current_page s, step s, patient_info (data s), rf (data s),
      map (vitals_history (data s)) METRICS, esi_worsening (data s), photo (data s),
      main_symptom (data s))"

section \<open>Properties of the trend analyser\<close>

text \<open>
  C9. For every sequence with fewer than two elements \<open>calculate_slope\<close> returns
  exactly \<open>0.0\<close>, whatever the fitting routine would compute.
\<close>

theorem calculate_slope_short:
  "length values < 2 \<Longrightarrow> calculate_slope polyfit values = 0"
  by (simp add: calculate_slope_def)

theorem calculate_slope_short_witness:
  "length [5 :: int] < 2 \<and> calculate_slope (\<lambda>_. 1) [5] = 0 \<and>
   length ([] :: int list) < 2 \<and> calculate_slope (\<lambda>_. 1) [] = 0"
  using calculate_slope_short [of "[5]" "\<lambda>_. 1"] calculate_slope_short [of "[]" "\<lambda>_. 1"]
  by simp

section \<open>Properties of the classifier\<close>

subsection \<open>Auxiliary facts\<close>

lemma display_name_heart_rate: "display_name ''heart_rate'' = ''Heart Rate''"
  by code_simp

lemma display_name_spo2: "display_name ''spo2'' = ''Spo2''"
  by code_simp

lemma display_name_pain_score: "display_name ''pain_score'' = ''Pain Score''"
  by code_simp

lemma red_flag_of_heart_rate: "red_flag_of ''heart_rate'' c = Inr (c < 40 \<or> c > 130)"
  by (simp add: red_flag_of_def RED_FLAG_THRESHOLDS_def)

lemma red_flag_of_spo2: "red_flag_of ''spo2'' c = Inr (c < 0 \<or> c > 90)"
  by (simp add: red_flag_of_def RED_FLAG_THRESHOLDS_def)

lemma red_flag_of_pain_score: "red_flag_of ''pain_score'' c = Inr (c < 8 \<or> c > 10)"
  by (simp add: red_flag_of_def RED_FLAG_THRESHOLDS_def)

lemmas red_flag_of_simps = red_flag_of_heart_rate red_flag_of_spo2 red_flag_of_pain_score

lemma set_METRICS:
  "m \<in> set METRICS \<longleftrightarrow> m = ''heart_rate'' \<or> m = ''spo2'' \<or> m = ''pain_score''"
  by (auto simp: METRICS_def)

lemma red_flag_of_monitored: "m \<in> set METRICS \<Longrightarrow> \<exists>b. red_flag_of m c = Inr b"
  by (auto simp: set_METRICS red_flag_of_simps)

lemma is_worsening_rule: "is_worsening m delta = spec_worsening_rule m delta"
  by (auto simp: is_worsening_def spec_worsening_rule_def)

text \<open>The loop body, once the red-flag test has returned \<open>b\<close>.\<close>

lemma assess_metric_Inr:
  assumes "red_flag_of m (last d) = Inr b"
  shows "assess_metric pf rd m d (rs, w, f, why) =
     Inr (rs @ [\<lparr> Metric = display_name m,
                  Trend = (if is_worsening m (last d - hd d) then ''Worsening'' else ''Stable''),
                  Critical_Alert = (if b then YES_label else ''No''),
                  Slope = rd (calculate_slope pf d) \<rparr>],
          (if is_worsening m (last d - hd d) then w + 1 else w),
          (if b then f + 1 else f),
          why @ (if is_worsening m (last d - hd d)
                 then [display_name m @ '' is worsening over time.''] else [])
              @ (if b then [''CRITICAL: '' @ display_name m @ '' crossed safety limits.'']
                 else []))"
  using assms by (simp add: assess_metric_def Let_def)

lemma assess_metric_Inl:
  assumes "red_flag_of m (last d) = Inl e"
  shows "assess_metric pf rd m d acc = Inl e"
  using assms by (simp add: assess_metric_def Let_def split: prod.splits)

text \<open>What a run of the loop that returns has added to the accumulators.\<close>

lemma monitor_loop_counts:
  assumes "monitor_loop pf rd vh ms (rs, w, f, why) = Inr (rs', w', f', why')"
  shows "w' = w + int (length (filter (\<lambda>m. counts_worsening m (series_of vh m)) ms)) \<and>
         f' = f + int (length (filter (\<lambda>m. counts_red_flag m (series_of vh m)) ms)) \<and>
         int (length why') = int (length why) + (w' - w) + (f' - f)"
  using assms
proof (induction ms arbitrary: rs w f why)
  case Nil
  then show ?case by simp
next
  case (Cons m ms)
  from Cons.prems obtain d where d: "vh m = Some d"
    by (cases "vh m") auto
  show ?case
  proof (cases "d = []")
    case True
    with Cons.prems d have "monitor_loop pf rd vh ms (rs, w, f, why) = Inr (rs', w', f', why')"
      by simp
    from Cons.IH [OF this] True d show ?thesis
      by (simp add: series_of_def counts_worsening_def counts_red_flag_def)
  next
    case False
    from Cons.prems d False obtain b where b: "red_flag_of m (last d) = Inr b"
      by (cases "red_flag_of m (last d)") (auto simp: assess_metric_Inl)
    obtain acc where acc: "assess_metric pf rd m d (rs, w, f, why) = Inr acc"
      and w1: "fst (snd acc) = (if is_worsening m (last d - hd d) then w + 1 else w)"
      and f1: "fst (snd (snd acc)) = (if b then f + 1 else f)"
      and y1: "int (length (snd (snd (snd acc)))) =
                 int (length why) + (if is_worsening m (last d - hd d) then 1 else 0)
                   + (if b then 1 else 0)"
      using assess_metric_Inr [OF b, of pf rd rs w f why] by simp
    obtain rs1 wa fa why1 where split: "acc = (rs1, wa, fa, why1)"
      by (cases acc) auto
    from Cons.prems d False acc split
    have "monitor_loop pf rd vh ms (rs1, wa, fa, why1) = Inr (rs', w', f', why')"
      by simp
    from Cons.IH [OF this] d False b w1 f1 y1 split show ?thesis
      by (simp add: series_of_def counts_worsening_def counts_red_flag_def)
  qed
qed

text \<open>The rows a returning run has added: one per metric with readings, in order.\<close>

lemma monitor_loop_rows:
  assumes "monitor_loop pf rd vh ms (rs, w, f, why) = Inr (rs', w', f', why')"
  shows "map Metric rs' =
           map Metric rs @ map display_name (filter (\<lambda>m. series_of vh m \<noteq> []) ms) \<and>
         map Trend rs' =
           map Trend rs @
           map (\<lambda>m. if counts_worsening m (series_of vh m) then ''Worsening'' else ''Stable'')
             (filter (\<lambda>m. series_of vh m \<noteq> []) ms)"
  using assms
proof (induction ms arbitrary: rs w f why)
  case Nil
  then show ?case by simp
next
  case (Cons m ms)
  from Cons.prems obtain d where d: "vh m = Some d"
    by (cases "vh m") auto
  show ?case
  proof (cases "d = []")
    case True
    with Cons.prems d have "monitor_loop pf rd vh ms (rs, w, f, why) = Inr (rs', w', f', why')"
      by simp
    from Cons.IH [OF this] True d show ?thesis
      by (simp add: series_of_def)
  next
    case False
    from Cons.prems d False obtain b where b: "red_flag_of m (last d) = Inr b"
      by (cases "red_flag_of m (last d)") (auto simp: assess_metric_Inl)
    obtain acc where acc: "assess_metric pf rd m d (rs, w, f, why) = Inr acc"
      and r1: "map Metric (fst acc) = map Metric rs @ [display_name m]"
      and t1: "map Trend (fst acc) =
                 map Trend rs @
                 [if is_worsening m (last d - hd d) then ''Worsening'' else ''Stable'']"
      using assess_metric_Inr [OF b, of pf rd rs w f why] by simp
    obtain rs1 wa fa why1 where split: "acc = (rs1, wa, fa, why1)"
      by (cases acc) auto
    from Cons.prems d False acc split
    have "monitor_loop pf rd vh ms (rs1, wa, fa, why1) = Inr (rs', w', f', why')"
      by simp
    from Cons.IH [OF this] d False r1 t1 split show ?thesis
      by (simp add: series_of_def counts_worsening_def)
  qed
qed

text \<open>The loop returns when every metric it visits is a key of the history.\<close>

lemma monitor_loop_returns:
  assumes "\<forall>m\<in>set ms. vh m \<noteq> None \<and> m \<in> set METRICS"
  shows "\<exists>acc'. monitor_loop pf rd vh ms acc = Inr acc'"
  using assms
proof (induction ms arbitrary: acc)
  case Nil
  show ?case by (rule exI [of _ acc]) simp
next
  case (Cons m ms)
  then obtain d where d: "vh m = Some d" and mon: "m \<in> set METRICS"
    by auto
  from Cons.prems have rest: "\<forall>k\<in>set ms. vh k \<noteq> None \<and> k \<in> set METRICS"
    by simp
  show ?case
  proof (cases "d = []")
    case True
    with d Cons.IH [OF rest] show ?thesis by simp
  next
    case False
    obtain b where b: "red_flag_of m (last d) = Inr b"
      using red_flag_of_monitored [OF mon] by blast
    obtain rs w f why where "acc = (rs, w, f, why)"
      by (cases acc) auto
    with assess_metric_Inr [OF b, of pf rd rs w f why]
    obtain acc1 where "assess_metric pf rd m d acc = Inr acc1"
      by simp
    with d False Cons.IH [OF rest, of acc1] show ?thesis by simp
  qed
qed

text \<open>Leaving the metrics with an empty series out of the loop changes nothing.\<close>

lemma monitor_loop_skip_empty:
  "monitor_loop pf rd vh (filter (\<lambda>m. vh m \<noteq> Some []) ms) acc = monitor_loop pf rd vh ms acc"
proof (induction ms arbitrary: acc)
  case Nil
  show ?case by simp
next
  case (Cons m ms)
  show ?case
  proof (cases "vh m")
    case None
    then show ?thesis by simp
  next
    case (Some d)
    with Cons.IH show ?thesis
      by (cases "d = []") (simp_all split: sum.splits)
  qed
qed

lemma pipeline_returns:
  assumes "\<forall>m\<in>set METRICS. vh m \<noteq> None"
  shows "\<exists>rs w f why.
           monitor_loop pf rd vh METRICS ([], 0, 0, []) = Inr (rs, w, f, why) \<and>
           patient_monitoring_pipeline_integrated pf rd vh =
             Inr (summarize (rs, w, f, why))"
proof -
  from assms have "\<forall>m\<in>set METRICS. vh m \<noteq> None \<and> m \<in> set METRICS"
    by simp
  from monitor_loop_returns [OF this, of pf rd "([], 0, 0, [])"]
  obtain acc' where a: "monitor_loop pf rd vh METRICS ([], 0, 0, []) = Inr acc'"
    by blast
  obtain rs w f why where "acc' = (rs, w, f, why)"
    by (cases acc') auto
  with a show ?thesis
    by (simp add: patient_monitoring_pipeline_integrated_def)
qed

lemma pipeline_Inr_loop:
  assumes "patient_monitoring_pipeline_integrated pf rd vh = Inr r"
  shows "monitor_loop pf rd vh METRICS ([], 0, 0, []) =
           Inr (metrics r, worsening_count r, red_flag_count r, reasons r) \<and>
         overall_status r =
           (if red_flag_count r \<ge> 1 \<or> worsening_count r \<ge> 1 then ''RED_FLAG'' else ''MONITOR'')"
proof -
  from assms obtain acc where a: "monitor_loop pf rd vh METRICS ([], 0, 0, []) = Inr acc"
    and r: "r = summarize acc"
    by (auto simp: patient_monitoring_pipeline_integrated_def split: sum.splits)
  obtain rs w f why where "acc = (rs, w, f, why)"
    by (cases acc) auto
  with a r show ?thesis
    by (simp add: summarize_def)
qed

subsection \<open>The scenarios of the specification\<close>

text \<open>
  C1. The scenario \<open>heart_rate = [72, 74]\<close>, \<open>spo2 = [98, 98]\<close>,
  \<open>pain_score = [1, 1]\<close>, for which the specification expects the status
  \<open>MONITOR\<close> with both counts zero and no reasons. The code returns the result below:
  no metric is worsening, but 98 is above the upper red-flag bound 90 of \<open>spo2\<close> and 1
  is below the lower red-flag bound 8 of \<open>pain_score\<close>, so two red flags are raised and
  the status is \<open>RED_FLAG\<close>.
\<close>

theorem stable_scenario_result:
  "patient_monitoring_pipeline_integrated polyfit round2
     [''heart_rate'' \<mapsto> [72, 74], ''spo2'' \<mapsto> [98, 98], ''pain_score'' \<mapsto> [1, 1]] =
   Inr \<lparr> metrics =
           [\<lparr> Metric = ''Heart Rate'', Trend = ''Stable'', Critical_Alert = ''No'',
              Slope = round2 (polyfit [72, 74]) \<rparr>,
            \<lparr> Metric = ''Spo2'', Trend = ''Stable'', Critical_Alert = YES_label,
              Slope = round2 (polyfit [98, 98]) \<rparr>,
            \<lparr> Metric = ''Pain Score'', Trend = ''Stable'', Critical_Alert = YES_label,
              Slope = round2 (polyfit [1, 1]) \<rparr>],
         overall_status = ''RED_FLAG'',
         worsening_count = 0,
         red_flag_count = 2,
         reasons =
           [''CRITICAL: Spo2 crossed safety limits.'',
            ''CRITICAL: Pain Score crossed safety limits.''] \<rparr>"
  by (simp add: patient_monitoring_pipeline_integrated_def METRICS_def assess_metric_def
      red_flag_of_simps is_worsening_def calculate_slope_def summarize_def
      display_name_heart_rate display_name_spo2 display_name_pain_score)

text \<open>
  C3. The deterioration scenario (the one the simulation button loads), for which the
  specification expects three worsening metrics and three red flags. The code finds
  the three worsening trends but raises one red flag only, for the heart rate: 87 lies
  inside the pair \<open>(0, 90)\<close> of \<open>spo2\<close> and 9 inside the pair \<open>(8, 10)\<close> of
  \<open>pain_score\<close>.
\<close>

theorem deterioration_scenario_result:
  "patient_monitoring_pipeline_integrated polyfit round2
     [''heart_rate'' \<mapsto> [75, 82, 95, 110, 125, 135],
      ''spo2'' \<mapsto> [98, 97, 95, 92, 89, 87],
      ''pain_score'' \<mapsto> [2, 3, 5, 7, 8, 9]] =
   Inr \<lparr> metrics =
           [\<lparr> Metric = ''Heart Rate'', Trend = ''Worsening'', Critical_Alert = YES_label,
              Slope = round2 (polyfit [75, 82, 95, 110, 125, 135]) \<rparr>,
            \<lparr> Metric = ''Spo2'', Trend = ''Worsening'', Critical_Alert = ''No'',
              Slope = round2 (polyfit [98, 97, 95, 92, 89, 87]) \<rparr>,
            \<lparr> Metric = ''Pain Score'', Trend = ''Worsening'', Critical_Alert = ''No'',
              Slope = round2 (polyfit [2, 3, 5, 7, 8, 9]) \<rparr>],
         overall_status = ''RED_FLAG'',
         worsening_count = 3,
         red_flag_count = 1,
         reasons =
           [''Heart Rate is worsening over time.'',
            ''CRITICAL: Heart Rate crossed safety limits.'',
            ''Spo2 is worsening over time.'',
            ''Pain Score is worsening over time.''] \<rparr>"
  by (simp add: patient_monitoring_pipeline_integrated_def METRICS_def assess_metric_def
      red_flag_of_simps is_worsening_def calculate_slope_def summarize_def
      display_name_heart_rate display_name_spo2 display_name_pain_score)

subsection \<open>The red-flag test\<close>

text \<open>
  C2. The red-flag test of the code is the same comparison for every metric: the last
  reading strictly below the first component or strictly above the second component of
  the metric's pair. For the heart rate that is a reading outside \<open>[40, 130]\<close>. For
  \<open>spo2\<close> it is a reading below 0 or above 90, and for \<open>pain_score\<close> a reading
  below 8 or above 10, not the readings at or below 90 and at or above 8 of the
  specification: a saturation of 98 and a pain score of 1 are flagged, a saturation
  of 87 and a pain score of 9 are not.
\<close>

theorem red_flag_test_as_coded:
  "red_flag_of ''heart_rate'' c = Inr (c < 40 \<or> c > 130) \<and>
   red_flag_of ''spo2'' c = Inr (c < 0 \<or> c > 90) \<and>
   red_flag_of ''pain_score'' c = Inr (c < 8 \<or> c > 10) \<and>
   counts_red_flag ''spo2'' [98] \<and> \<not> counts_red_flag ''spo2'' [87] \<and>
   counts_red_flag ''pain_score'' [1] \<and> \<not> counts_red_flag ''pain_score'' [9] \<and>
   counts_of (patient_monitoring_pipeline_integrated polyfit round2
     [''heart_rate'' \<mapsto> [80], ''spo2'' \<mapsto> [98], ''pain_score'' \<mapsto> [1]]) = Inr (0, 2) \<and>
   counts_of (patient_monitoring_pipeline_integrated polyfit round2
     [''heart_rate'' \<mapsto> [80], ''spo2'' \<mapsto> [87], ''pain_score'' \<mapsto> [9]]) = Inr (0, 0)"
  by (simp add: counts_red_flag_def counts_of_def
      patient_monitoring_pipeline_integrated_def METRICS_def assess_metric_def
      red_flag_of_simps is_worsening_def summarize_def)

subsection \<open>Aggregation\<close>

text \<open>
  C4. Whenever the classifier returns, the status is \<open>RED_FLAG\<close> exactly when one of
  the two counts is at least 1 and \<open>MONITOR\<close> otherwise; and it returns for every
  history that holds the three monitored keys. One worsening trend without any red flag
  therefore gives \<open>RED_FLAG\<close> (the witness).
\<close>

theorem overall_status_aggregation:
  "(\<forall>r. patient_monitoring_pipeline_integrated polyfit round2 vh = Inr r \<longrightarrow>
      (overall_status r = ''RED_FLAG'' \<longleftrightarrow> red_flag_count r \<ge> 1 \<or> worsening_count r \<ge> 1) \<and>
      (overall_status r = ''MONITOR'' \<longleftrightarrow> \<not> (red_flag_count r \<ge> 1 \<or> worsening_count r \<ge> 1))) \<and>
   ((\<forall>m\<in>set METRICS. vh m \<noteq> None) \<longrightarrow>
      (\<exists>r. patient_monitoring_pipeline_integrated polyfit round2 vh = Inr r))"
proof (intro conjI allI impI)
  fix r
  assume "patient_monitoring_pipeline_integrated polyfit round2 vh = Inr r"
  from pipeline_Inr_loop [OF this]
  have st: "overall_status r =
      (if red_flag_count r \<ge> 1 \<or> worsening_count r \<ge> 1 then ''RED_FLAG'' else ''MONITOR'')"
    by simp
  from st show "overall_status r = ''RED_FLAG'' \<longleftrightarrow>
      red_flag_count r \<ge> 1 \<or> worsening_count r \<ge> 1"
    by (simp split: if_splits)
  from st show "overall_status r = ''MONITOR'' \<longleftrightarrow>
      \<not> (red_flag_count r \<ge> 1 \<or> worsening_count r \<ge> 1)"
    by (simp split: if_splits)
next
  assume "\<forall>m\<in>set METRICS. vh m \<noteq> None"
  from pipeline_returns [OF this, of polyfit round2]
  show "\<exists>r. patient_monitoring_pipeline_integrated polyfit round2 vh = Inr r"
    by blast
qed

theorem overall_status_aggregation_witness:
  "patient_monitoring_pipeline_integrated (\<lambda>_. 1) (\<lambda>x. x)
     [''heart_rate'' \<mapsto> [70, 80], ''spo2'' \<mapsto> [], ''pain_score'' \<mapsto> []] =
   Inr \<lparr> metrics =
           [\<lparr> Metric = ''Heart Rate'', Trend = ''Worsening'', Critical_Alert = ''No'',
              Slope = 1 \<rparr>],
         overall_status = ''RED_FLAG'',
         worsening_count = 1,
         red_flag_count = 0,
         reasons = [''Heart Rate is worsening over time.''] \<rparr> \<and>
   overall_status
     \<lparr> metrics =
         [\<lparr> Metric = ''Heart Rate'', Trend = ''Worsening'', Critical_Alert = ''No'',
            Slope = 1 \<rparr>],
       overall_status = ''RED_FLAG'',
       worsening_count = 1,
       red_flag_count = 0,
       reasons = [''Heart Rate is worsening over time.''] \<rparr> = ''RED_FLAG''"
proof -
  let ?vh = "[''heart_rate'' \<mapsto> [70, 80], ''spo2'' \<mapsto> [], ''pain_score'' \<mapsto> []]
      :: string \<rightharpoonup> int list"
  let ?r = "\<lparr> metrics =
         [\<lparr> Metric = ''Heart Rate'', Trend = ''Worsening'', Critical_Alert = ''No'',
            Slope = (1 :: real) \<rparr>],
       overall_status = ''RED_FLAG'',
       worsening_count = 1,
       red_flag_count = 0,
       reasons = [''Heart Rate is worsening over time.''] \<rparr>"
  have run: "patient_monitoring_pipeline_integrated (\<lambda>_. 1) (\<lambda>x. x) ?vh = Inr ?r"
    by (simp add: patient_monitoring_pipeline_integrated_def METRICS_def assess_metric_def
        red_flag_of_simps is_worsening_def calculate_slope_def summarize_def
        display_name_heart_rate)
  from overall_status_aggregation [of "\<lambda>_. 1" "\<lambda>x. x" ?vh] run
  have "overall_status ?r = ''RED_FLAG'' \<longleftrightarrow> red_flag_count ?r \<ge> 1 \<or> worsening_count ?r \<ge> 1"
    by blast
  then have "overall_status ?r = ''RED_FLAG''"
    by simp
  with run show ?thesis by simp
qed

subsection \<open>The worsening rule\<close>

text \<open>
  C5. The worsening test of the loop body is exactly the rule of the specification,
  for every metric name (so a name other than the three has no rule). For every
  history the classifier returns a result for, the worsening count is the number of
  monitored metrics whose series is not empty and whose last reading minus first reading
  satisfies the rule, and the trend labels of the rows say the same, metric by metric.
\<close>

theorem worsening_rule_exact:
  "is_worsening m delta = spec_worsening_rule m delta \<and>
   (\<forall>r. patient_monitoring_pipeline_integrated polyfit round2 vh = Inr r \<longrightarrow>
      worsening_count r =
        int (length (filter
          (\<lambda>k. series_of vh k \<noteq> [] \<and>
               spec_worsening_rule k (last (series_of vh k) - hd (series_of vh k)))
          METRICS)) \<and>
      map Trend (metrics r) =
        map (\<lambda>k. if spec_worsening_rule k (last (series_of vh k) - hd (series_of vh k))
                 then ''Worsening'' else ''Stable'')
          (filter (\<lambda>k. series_of vh k \<noteq> []) METRICS))"
proof (intro conjI allI impI)
  show "is_worsening m delta = spec_worsening_rule m delta"
    by (rule is_worsening_rule)
next
  fix r
  assume "patient_monitoring_pipeline_integrated polyfit round2 vh = Inr r"
  from pipeline_Inr_loop [OF this]
  have loop: "monitor_loop polyfit round2 vh METRICS ([], 0, 0, []) =
      Inr (metrics r, worsening_count r, red_flag_count r, reasons r)"
    by simp
  have cw: "counts_worsening k d \<longleftrightarrow> d \<noteq> [] \<and> spec_worsening_rule k (last d - hd d)"
    for k d
    by (simp add: counts_worsening_def is_worsening_rule)
  from monitor_loop_counts [OF loop]
  show "worsening_count r =
      int (length (filter
        (\<lambda>k. series_of vh k \<noteq> [] \<and>
             spec_worsening_rule k (last (series_of vh k) - hd (series_of vh k)))
        METRICS))"
    by (simp add: cw)
  from monitor_loop_rows [OF loop]
  have "map Trend (metrics r) =
      map (\<lambda>k. if counts_worsening k (series_of vh k) then ''Worsening'' else ''Stable'')
        (filter (\<lambda>k. series_of vh k \<noteq> []) METRICS)"
    by simp
  also have "\<dots> =
      map (\<lambda>k. if spec_worsening_rule k (last (series_of vh k) - hd (series_of vh k))
               then ''Worsening'' else ''Stable'')
        (filter (\<lambda>k. series_of vh k \<noteq> []) METRICS)"
    by (rule map_cong) (auto simp: cw)
  finally show "map Trend (metrics r) =
      map (\<lambda>k. if spec_worsening_rule k (last (series_of vh k) - hd (series_of vh k))
               then ''Worsening'' else ''Stable'')
        (filter (\<lambda>k. series_of vh k \<noteq> []) METRICS)" .
qed

theorem worsening_rule_exact_witness:
  "patient_monitoring_pipeline_integrated (\<lambda>_. 1) (\<lambda>x. x)
     [''heart_rate'' \<mapsto> [70, 75], ''spo2'' \<mapsto> [95, 92], ''pain_score'' \<mapsto> []] =
   Inr \<lparr> metrics =
           [\<lparr> Metric = ''Heart Rate'', Trend = ''Stable'', Critical_Alert = ''No'',
              Slope = 1 \<rparr>,
            \<lparr> Metric = ''Spo2'', Trend = ''Worsening'', Critical_Alert = YES_label,
              Slope = 1 \<rparr>],
         overall_status = ''RED_FLAG'',
         worsening_count = 1,
         red_flag_count = 1,
         reasons =
           [''Spo2 is worsening over time.'', ''CRITICAL: Spo2 crossed safety limits.''] \<rparr> \<and>
   int (length (filter
     (\<lambda>k. series_of [''heart_rate'' \<mapsto> [70, 75], ''spo2'' \<mapsto> [95, 92], ''pain_score'' \<mapsto> []] k
            \<noteq> [] \<and>
          spec_worsening_rule k
            (last (series_of
               [''heart_rate'' \<mapsto> [70, 75], ''spo2'' \<mapsto> [95, 92], ''pain_score'' \<mapsto> []] k) -
             hd (series_of
               [''heart_rate'' \<mapsto> [70, 75], ''spo2'' \<mapsto> [95, 92], ''pain_score'' \<mapsto> []] k)))
     METRICS)) = 1"
proof -
  let ?vh = "[''heart_rate'' \<mapsto> [70, 75], ''spo2'' \<mapsto> [95, 92], ''pain_score'' \<mapsto> []]
      :: string \<rightharpoonup> int list"
  let ?r = "\<lparr> metrics =
           [\<lparr> Metric = ''Heart Rate'', Trend = ''Stable'', Critical_Alert = ''No'',
              Slope = (1 :: real) \<rparr>,
            \<lparr> Metric = ''Spo2'', Trend = ''Worsening'', Critical_Alert = YES_label,
              Slope = 1 \<rparr>],
         overall_status = ''RED_FLAG'',
         worsening_count = 1,
         red_flag_count = 1,
         reasons =
           [''Spo2 is worsening over time.'', ''CRITICAL: Spo2 crossed safety limits.''] \<rparr>"
  have run: "patient_monitoring_pipeline_integrated (\<lambda>_. 1) (\<lambda>x. x) ?vh = Inr ?r"
    by (simp add: patient_monitoring_pipeline_integrated_def METRICS_def assess_metric_def
        red_flag_of_simps is_worsening_def calculate_slope_def summarize_def
        display_name_heart_rate display_name_spo2)
  from worsening_rule_exact [of _ _ "\<lambda>_. 1" "\<lambda>x. x" ?vh] run
  have "worsening_count ?r =
      int (length (filter
        (\<lambda>k. series_of ?vh k \<noteq> [] \<and>
             spec_worsening_rule k (last (series_of ?vh k) - hd (series_of ?vh k)))
        METRICS))"
    by blast
  then have "int (length (filter
        (\<lambda>k. series_of ?vh k \<noteq> [] \<and>
             spec_worsening_rule k (last (series_of ?vh k) - hd (series_of ?vh k)))
        METRICS)) = 1"
    by simp
  with run show ?thesis by blast
qed

subsection \<open>Absent keys and empty series\<close>

text \<open>
  C6, as the code has it. For every history that holds the three monitored keys the
  classifier returns, and its result is the one of the loop run over the metrics with
  readings alone: a metric with an empty series adds no row, no count and no reason,
  and the other metrics are classified as without it. (A history from which a monitored
  key is absent is not skipped over: the subscript raises, see the counterexample.)
\<close>

theorem empty_series_skipped:
  assumes "\<forall>m\<in>set METRICS. vh m \<noteq> None"
  shows "\<exists>r. patient_monitoring_pipeline_integrated polyfit round2 vh = Inr r \<and>
           monitor_loop polyfit round2 vh (filter (\<lambda>m. vh m \<noteq> Some []) METRICS)
               ([], 0, 0, []) =
             Inr (metrics r, worsening_count r, red_flag_count r, reasons r) \<and>
           map Metric (metrics r) =
             map display_name (filter (\<lambda>m. vh m \<noteq> Some []) METRICS)"
proof -
  from pipeline_returns [OF assms, of polyfit round2]
  obtain rs w f why where
    loop: "monitor_loop polyfit round2 vh METRICS ([], 0, 0, []) = Inr (rs, w, f, why)" and
    res: "patient_monitoring_pipeline_integrated polyfit round2 vh =
            Inr (summarize (rs, w, f, why))"
    by blast
  let ?r = "summarize (rs, w, f, why)"
  have fields: "(metrics ?r, worsening_count ?r, red_flag_count ?r, reasons ?r) =
      (rs, w, f, why)"
    by (simp add: summarize_def)
  have nonempty: "filter (\<lambda>m. series_of vh m \<noteq> []) METRICS =
      filter (\<lambda>m. vh m \<noteq> Some []) METRICS"
    using assms by (intro filter_cong) (auto simp: series_of_def split: option.splits)
  from monitor_loop_rows [OF loop] nonempty
  have names: "map Metric rs = map display_name (filter (\<lambda>m. vh m \<noteq> Some []) METRICS)"
    by simp
  from loop have
    "monitor_loop polyfit round2 vh (filter (\<lambda>m. vh m \<noteq> Some []) METRICS) ([], 0, 0, []) =
       Inr (rs, w, f, why)"
    by (simp add: monitor_loop_skip_empty)
  with res names fields show ?thesis
    by (intro exI [of _ ?r]) simp
qed

theorem empty_series_skipped_witness:
  "map [''heart_rate'' \<mapsto> [], ''spo2'' \<mapsto> [], ''pain_score'' \<mapsto> [9 :: int]] METRICS =
     [Some [], Some [], Some [9]] \<and>
   (\<exists>r. patient_monitoring_pipeline_integrated (\<lambda>_. 1) (\<lambda>x. x)
          [''heart_rate'' \<mapsto> [], ''spo2'' \<mapsto> [], ''pain_score'' \<mapsto> [9]] = Inr r \<and>
        monitor_loop (\<lambda>_. 1) (\<lambda>x. x)
          [''heart_rate'' \<mapsto> [], ''spo2'' \<mapsto> [], ''pain_score'' \<mapsto> [9]]
          [''pain_score''] ([], 0, 0, []) =
          Inr (metrics r, worsening_count r, red_flag_count r, reasons r) \<and>
        map Metric (metrics r) = [''Pain Score''])"
proof -
  let ?vh = "[''heart_rate'' \<mapsto> [], ''spo2'' \<mapsto> [], ''pain_score'' \<mapsto> [9]]
      :: string \<rightharpoonup> int list"
  have keys: "\<forall>m\<in>set METRICS. ?vh m \<noteq> None"
    by (simp add: METRICS_def)
  have kept: "filter (\<lambda>m. ?vh m \<noteq> Some []) METRICS = [''pain_score'']"
    by (simp add: METRICS_def)
  note skipped =
    empty_series_skipped [OF keys, of "\<lambda>_. 1" "\<lambda>x. x", unfolded kept list.map
      display_name_pain_score]
  have present: "map ?vh METRICS = [Some [], Some [], Some [9]]"
    by (simp add: METRICS_def)
  from skipped present show ?thesis
    by blast
qed

text \<open>
  C6, as stated, fails for an absent key: with no \<open>heart_rate\<close> entry the classifier
  raises \<^verbatim>\<open>KeyError\<close> and classifies nothing.
\<close>

theorem absent_metric_raises:
  "patient_monitoring_pipeline_integrated (\<lambda>_. 1) (\<lambda>x. x)
     [''spo2'' \<mapsto> [98], ''pain_score'' \<mapsto> [1]] = Inl (KeyError ''heart_rate'')"
  by (simp add: patient_monitoring_pipeline_integrated_def METRICS_def)

subsection \<open>Reasons and counts\<close>

text \<open>
  C10. For every history that holds the three monitored keys, the classifier returns a
  result whose reasons list has exactly \<open>worsening_count + red_flag_count\<close> entries,
  and the list is empty exactly when the status is \<open>MONITOR\<close>.
\<close>

theorem reasons_match_counts:
  assumes "\<forall>m\<in>set METRICS. vh m \<noteq> None"
  shows "\<exists>r. patient_monitoring_pipeline_integrated polyfit round2 vh = Inr r \<and>
           int (length (reasons r)) = worsening_count r + red_flag_count r \<and>
           (reasons r = [] \<longleftrightarrow> overall_status r = ''MONITOR'')"
proof -
  from pipeline_returns [OF assms, of polyfit round2]
  obtain rs w f why where
    loop: "monitor_loop polyfit round2 vh METRICS ([], 0, 0, []) = Inr (rs, w, f, why)" and
    res: "patient_monitoring_pipeline_integrated polyfit round2 vh =
            Inr (summarize (rs, w, f, why))"
    by blast
  from monitor_loop_counts [OF loop]
  have w: "0 \<le> w" and f: "0 \<le> f" and len: "int (length why) = w + f"
    by simp_all
  from len w f have "why = [] \<longleftrightarrow> \<not> (f \<ge> 1 \<or> w \<ge> 1)"
    by (cases why) auto
  with len res show ?thesis
    by (intro exI [of _ "summarize (rs, w, f, why)"]) (simp add: summarize_def)
qed

theorem reasons_match_counts_witness:
  "map [''heart_rate'' \<mapsto> [120, 135], ''spo2'' \<mapsto> [85], ''pain_score'' \<mapsto> [9 :: int]]
     METRICS = [Some [120, 135], Some [85], Some [9]] \<and>
   (\<exists>r. patient_monitoring_pipeline_integrated (\<lambda>_. 1) (\<lambda>x. x)
          [''heart_rate'' \<mapsto> [120, 135], ''spo2'' \<mapsto> [85], ''pain_score'' \<mapsto> [9]] = Inr r \<and>
        int (length (reasons r)) = worsening_count r + red_flag_count r \<and>
        (reasons r = [] \<longleftrightarrow> overall_status r = ''MONITOR''))"
proof -
  let ?vh = "[''heart_rate'' \<mapsto> [120, 135], ''spo2'' \<mapsto> [85], ''pain_score'' \<mapsto> [9]]
      :: string \<rightharpoonup> int list"
  have keys: "\<forall>m\<in>set METRICS. ?vh m \<noteq> None"
    by (simp add: METRICS_def)
  have present: "map ?vh METRICS = [Some [120, 135], Some [85], Some [9]]"
    by (simp add: METRICS_def)
  from reasons_match_counts [OF keys, of "\<lambda>_. 1" "\<lambda>x. x"] present show ?thesis
    by blast
qed


subsection \<open>Appending a reading\<close>

text \<open>The two counts of a history with the three keys, metric by metric.\<close>

lemma pipeline_counts:
  assumes "\<forall>m\<in>set METRICS. vh m \<noteq> None"
  shows "\<exists>r. patient_monitoring_pipeline_integrated pf rd vh = Inr r \<and>
           worsening_count r =
             int (length (filter (\<lambda>m. counts_worsening m (series_of vh m)) METRICS)) \<and>
           red_flag_count r =
             int (length (filter (\<lambda>m. counts_red_flag m (series_of vh m)) METRICS))"
proof -
  from pipeline_returns [OF assms, of pf rd]
  obtain rs w f why where
    loop: "monitor_loop pf rd vh METRICS ([], 0, 0, []) = Inr (rs, w, f, why)" and
    res: "patient_monitoring_pipeline_integrated pf rd vh = Inr (summarize (rs, w, f, why))"
    by blast
  from monitor_loop_counts [OF loop] res show ?thesis
    by (intro exI [of _ "summarize (rs, w, f, why)"]) (simp add: summarize_def)
qed

lemma series_of_upd: "series_of (vh(m \<mapsto> d)) k = (if k = m then d else series_of vh k)"
  by (simp add: series_of_def)

text \<open>
  C7, as the code has it. Take a history with the three monitored keys and a reading
  \<open>v\<close> appended to the series of one monitored metric, such that the metric was not
  counted as worsening before and is counted as worsening after. Then both
  classifications return, the worsening count grows by exactly one, and the red-flag
  count changes by the red flag of that metric alone: it goes down by one when the
  previous last reading was red-flagged and \<open>v\<close> is not.
\<close>

theorem append_worsening_reading:
  assumes keys: "\<forall>k\<in>set METRICS. vh k \<noteq> None"
    and m: "m \<in> set METRICS"
    and d: "vh m = Some d"
    and before: "\<not> counts_worsening m d"
    and after: "counts_worsening m (d @ [v])"
  shows "\<exists>r r'. patient_monitoring_pipeline_integrated polyfit round2 vh = Inr r \<and>
           patient_monitoring_pipeline_integrated polyfit round2 (vh(m \<mapsto> d @ [v])) = Inr r' \<and>
           worsening_count r' = worsening_count r + 1 \<and>
           red_flag_count r' =
             red_flag_count r + (if counts_red_flag m (d @ [v]) then 1 else 0)
               - (if counts_red_flag m d then 1 else 0)"
proof -
  let ?vh' = "vh(m \<mapsto> d @ [v])"
  from keys have keys': "\<forall>k\<in>set METRICS. ?vh' k \<noteq> None"
    by simp
  from pipeline_counts [OF keys, of polyfit round2] obtain r where
    r: "patient_monitoring_pipeline_integrated polyfit round2 vh = Inr r" and
    rw: "worsening_count r =
           int (length (filter (\<lambda>k. counts_worsening k (series_of vh k)) METRICS))" and
    rf: "red_flag_count r =
           int (length (filter (\<lambda>k. counts_red_flag k (series_of vh k)) METRICS))"
    by blast
  from pipeline_counts [OF keys', of polyfit round2] obtain r' where
    r': "patient_monitoring_pipeline_integrated polyfit round2 ?vh' = Inr r'" and
    rw': "worsening_count r' =
           int (length (filter (\<lambda>k. counts_worsening k (series_of ?vh' k)) METRICS))" and
    rf': "red_flag_count r' =
           int (length (filter (\<lambda>k. counts_red_flag k (series_of ?vh' k)) METRICS))"
    by blast
  from d have sd: "series_of vh m = d"
    by (simp add: series_of_def)
  from m have cases: "m = ''heart_rate'' \<or> m = ''spo2'' \<or> m = ''pain_score''"
    by (simp add: set_METRICS)
  from cases sd before after have w: "worsening_count r' = worsening_count r + 1"
    unfolding rw rw' by (auto simp: METRICS_def series_of_upd)
  from cases sd have f: "red_flag_count r' =
      red_flag_count r + (if counts_red_flag m (d @ [v]) then 1 else 0)
        - (if counts_red_flag m d then 1 else 0)"
    unfolding rf rf' by (auto simp: METRICS_def series_of_upd)
  from r r' w f show ?thesis
    by blast
qed

theorem append_worsening_reading_witness:
  "map [''heart_rate'' \<mapsto> [120, 124], ''spo2'' \<mapsto> [97], ''pain_score'' \<mapsto> [2 :: int]] METRICS =
     [Some [120, 124], Some [97], Some [2]] \<and>
   ''heart_rate'' \<in> set METRICS \<and>
   \<not> counts_worsening ''heart_rate'' [120, 124] \<and>
   counts_worsening ''heart_rate'' ([120, 124] @ [135]) \<and>
   counts_of (patient_monitoring_pipeline_integrated (\<lambda>_. 1) (\<lambda>x. x)
     [''heart_rate'' \<mapsto> [120, 124], ''spo2'' \<mapsto> [97], ''pain_score'' \<mapsto> [2]]) = Inr (0, 2) \<and>
   counts_of (patient_monitoring_pipeline_integrated (\<lambda>_. 1) (\<lambda>x. x)
     ([''heart_rate'' \<mapsto> [120, 124], ''spo2'' \<mapsto> [97], ''pain_score'' \<mapsto> [2]]
        (''heart_rate'' \<mapsto> [120, 124] @ [135]))) = Inr (1, 3)"
proof -
  let ?vh = "[''heart_rate'' \<mapsto> [120, 124], ''spo2'' \<mapsto> [97], ''pain_score'' \<mapsto> [2]]
      :: string \<rightharpoonup> int list"
  have keys: "\<forall>k\<in>set METRICS. ?vh k \<noteq> None"
    by (simp add: METRICS_def)
  have present: "map ?vh METRICS = [Some [120, 124], Some [97], Some [2]]"
    by (simp add: METRICS_def)
  have m: "''heart_rate'' \<in> set METRICS"
    by (simp add: METRICS_def)
  have d: "?vh ''heart_rate'' = Some [120, 124]"
    by simp
  have before: "\<not> counts_worsening ''heart_rate'' [120, 124]"
    by (simp add: counts_worsening_def is_worsening_def)
  have after: "counts_worsening ''heart_rate'' ([120, 124] @ [135])"
    by (simp add: counts_worsening_def is_worsening_def)
  have flag_before: "\<not> counts_red_flag ''heart_rate'' [120, 124]"
    by (simp add: counts_red_flag_def red_flag_of_simps)
  have flag_after: "counts_red_flag ''heart_rate'' ([120, 124] @ [135])"
    by (simp add: counts_red_flag_def red_flag_of_simps)
  have c0: "counts_of (patient_monitoring_pipeline_integrated (\<lambda>_. 1) (\<lambda>x. x) ?vh) =
      Inr (0, 2)"
    by (simp add: counts_of_def patient_monitoring_pipeline_integrated_def METRICS_def
        assess_metric_def red_flag_of_simps is_worsening_def summarize_def)
  from append_worsening_reading [OF keys m d before after, of "\<lambda>_. 1" "\<lambda>x. x"]
  obtain r r' where
    r: "patient_monitoring_pipeline_integrated (\<lambda>_. 1) (\<lambda>x. x) ?vh = Inr r" and
    r': "patient_monitoring_pipeline_integrated (\<lambda>_. 1) (\<lambda>x. x)
           (?vh(''heart_rate'' \<mapsto> [120, 124] @ [135])) = Inr r'" and
    w: "worsening_count r' = worsening_count r + 1" and
    f: "red_flag_count r' =
          red_flag_count r + (if counts_red_flag ''heart_rate'' ([120, 124] @ [135]) then 1 else 0)
            - (if counts_red_flag ''heart_rate'' [120, 124] then 1 else 0)"
    by blast
  from c0 r have "worsening_count r = 0" and "red_flag_count r = 2"
    by (simp_all add: counts_of_def)
  with w f flag_before flag_after have "worsening_count r' = 1" and "red_flag_count r' = 3"
    by simp_all
  with r' have c1: "counts_of (patient_monitoring_pipeline_integrated (\<lambda>_. 1) (\<lambda>x. x)
      (?vh(''heart_rate'' \<mapsto> [120, 124] @ [135]))) = Inr (1, 3)"
    by (simp add: counts_of_def)
  from present m before after c0 c1 show ?thesis
    by blast
qed

text \<open>
  C7, as stated, fails: a heart rate of 35 is below the lower red-flag bound 40; the
  appended reading 41 makes the metric worsening (41 - 35 > 5) and is inside the
  bounds, so the red-flag count goes from 1 down to 0.
\<close>

theorem append_can_lower_red_flag_count:
  "\<not> counts_worsening ''heart_rate'' [35] \<and>
   counts_worsening ''heart_rate'' ([35] @ [41]) \<and>
   counts_of (patient_monitoring_pipeline_integrated (\<lambda>_. 1) (\<lambda>x. x)
     [''heart_rate'' \<mapsto> [35], ''spo2'' \<mapsto> [], ''pain_score'' \<mapsto> []]) = Inr (0, 1) \<and>
   counts_of (patient_monitoring_pipeline_integrated (\<lambda>_. 1) (\<lambda>x. x)
     [''heart_rate'' \<mapsto> [35] @ [41], ''spo2'' \<mapsto> [], ''pain_score'' \<mapsto> []]) = Inr (1, 0)"
  by (simp add: counts_worsening_def counts_of_def
      patient_monitoring_pipeline_integrated_def METRICS_def assess_metric_def
      red_flag_of_simps is_worsening_def summarize_def)

section \<open>Properties of the workflow\<close>

text \<open>
  C8, as the code has it. The Finish button of the summary step sets the step back to
  0 (registration) and the page to \<open>Home\<close>; the encounter data (patient, safety
  answers, vitals history, context and photo) stay as they were.
\<close>

theorem finish_keeps_encounter:
  assumes "current_page s = ''Patient Triage''" and "step s = 5"
  shows "\<exists>s'. handle Finish s = Inr s' \<and> step s' = 0 \<and> current_page s' = ''Home'' \<and>
           data s' = data s"
  using assms by (simp add: handle_def)

theorem finish_keeps_encounter_witness:
  "current_page
     \<lparr> current_page = ''Patient Triage'', step = 5,
       data = initial_data \<lparr> patient_info := \<lparr> name = ''Asha'', age = ''52'' \<rparr> \<rparr> \<rparr> =
     ''Patient Triage'' \<and>
   step
     \<lparr> current_page = ''Patient Triage'', step = 5,
       data = initial_data \<lparr> patient_info := \<lparr> name = ''Asha'', age = ''52'' \<rparr> \<rparr> \<rparr> = 5 \<and>
   (\<exists>s'. handle Finish
       \<lparr> current_page = ''Patient Triage'', step = 5,
         data = initial_data \<lparr> patient_info := \<lparr> name = ''Asha'', age = ''52'' \<rparr> \<rparr> \<rparr> = Inr s' \<and>
      step s' = 0 \<and> current_page s' = ''Home'' \<and>
      patient_info (data s') = \<lparr> name = ''Asha'', age = ''52'' \<rparr>)"
proof -
  let ?s = "\<lparr> current_page = ''Patient Triage'', step = 5,
       data = initial_data \<lparr> patient_info := \<lparr> name = ''Asha'', age = ''52'' \<rparr> \<rparr> \<rparr>"
  have page: "current_page ?s = ''Patient Triage''" and at: "step ?s = 5"
    by simp_all
  from finish_keeps_encounter [OF page at] obtain s' where
    "handle Finish ?s = Inr s'" and "step s' = 0" and "current_page s' = ''Home''" and
    "data s' = data ?s"
    by blast
  moreover from this have "patient_info (data s') = \<lparr> name = ''Asha'', age = ''52'' \<rparr>"
    by simp
  ultimately show ?thesis
    using page at by blast
qed

text \<open>
  C8, as stated, fails: after an encounter that fills every field, Finish leads to
  page \<open>Home\<close> and step 0 with the patient, the safety answers, the readings, the
  context and the photo of that encounter still in the session, none at its initial
  value.
\<close>

theorem finish_does_not_clear:
  "map_sum id snapshot
     (run [StartTriage, BeginAssessment ''Asha'' ''52'', Continue ''Yes'' ''No'',
           Next 120 93 6, AnalyzeFlow ''Fever/Infection'' ''Yes'', Upload ''wound.jpg'',
           Complete, Finish]
        initial_session) =
   Inr (''Home'', 0, \<lparr> name = ''Asha'', age = ''52'' \<rparr>, \<lparr> airway = ''Yes'', bleed = ''No'' \<rparr>,
        [Some [120], Some [93], Some [6]], ''Yes'', Some ''wound.jpg'', ''Fever/Infection'') \<and>
   snapshot initial_session =
     (''Home'', 0, \<lparr> name = ''Anonymous'', age = ''N/A'' \<rparr>, \<lparr> airway = ''No'', bleed = ''No'' \<rparr>,
      [Some [], Some [], Some []], ''No'', None, ''Wound/Skin'')"
  by (simp add: handle_def initial_session_def initial_data_def append_reading_def
      snapshot_def METRICS_def)

end
